theory Spec2Isabelle
  imports Main
begin

section \<open>Values and errors\<close>

text \<open>
  A JSON document as \<^verbatim>\<open>JSON.parse\<close> returns it.  An object is the list of its own
  properties in the order \<^verbatim>\<open>Object.keys\<close> enumerates them.  Numbers are modelled by
  integers: the program only ever tests a number for being zero.
\<close>

datatype json =
    JNull
  | JBool bool
  | JNum int
  | JStr string
  | JArr "json list"
  | JObj "(string \<times> json) list"

text \<open>What the program can throw, or a promise can reject with.\<close>

datatype error =
    Error string             \<comment> \<open>\<^verbatim>\<open>new Error(message)\<close>\<close>
  | CLIError string          \<comment> \<open>\<^verbatim>\<open>this.error(message)\<close> of the command\<close>
  | TypeError string         \<comment> \<open>raised by the language itself\<close>
  | SyntaxError string       \<comment> \<open>malformed JSON, the path of the file\<close>
  | FsError string string    \<comment> \<open>error code and path of a failed file operation\<close>
  | Unmodelled string        \<comment> \<open>behaviour outside this model\<close>

type_synonym path = string

datatype node = Dir | File string

text \<open>
  The file system: the entries that exist, by path.  A path is the string the program
  passes to a file operation; two paths name the same entry when they are the same string.
\<close>

type_synonym filesystem = "(path \<times> node) list"

section \<open>Strings and paths\<close>

text \<open>A string is the list of its code units.\<close>

definition startsWith :: "string \<Rightarrow> string \<Rightarrow> bool" where
  "startsWith s p = (take (length p) s = p)"

definition is_absolute :: "path \<Rightarrow> bool" where
  "is_absolute p = startsWith p ''/''"

text \<open>
  \<^verbatim>\<open>path.join\<close> of two strings, the POSIX one: the arguments that are not empty are
  joined with a slash and the result is normalised.  Normalising walks the segments
  between slashes: an empty segment and \<open>.\<close> are dropped, \<open>..\<close> removes the segment
  before it when there is one that is not \<open>..\<close> itself, and is kept only in a relative
  path; a trailing slash is kept.
\<close>

fun split_slash :: "string \<Rightarrow> string list" where
  "split_slash [] = [[]]"
| "split_slash (c # cs) =
     (if c = CHR ''/'' then [] # split_slash cs
      else (case split_slash cs of
              [] \<Rightarrow> [[c]]
            | s # ss \<Rightarrow> (c # s) # ss))"

definition push_segment :: "bool \<Rightarrow> string list \<Rightarrow> string \<Rightarrow> string list" where
  "push_segment allowAboveRoot res seg =
     (if seg = [] \<or> seg = ''.'' then res
      else if seg = ''..''
      then (if res \<noteq> [] \<and> last res \<noteq> ''..'' then butlast res
            else if allowAboveRoot then res @ [''..''] else res)
      else res @ [seg])"

fun join_slash :: "string list \<Rightarrow> string" where
  "join_slash [] = []"
| "join_slash [s] = s"
| "join_slash (s # t # ss) = s @ ''/'' @ join_slash (t # ss)"

definition normalize :: "path \<Rightarrow> path" where
  "normalize p =
     (if p = [] then ''.''
      else (let isAbsolute = is_absolute p;
                trailingSeparator = (last p = CHR ''/'');
                res = foldl (push_segment (\<not> isAbsolute)) [] (split_slash p)
            in if res = []
               then (if isAbsolute then ''/'' else if trailingSeparator then ''./'' else ''.'')
               else (if isAbsolute then ''/'' else []) @ join_slash res
                    @ (if trailingSeparator then ''/'' else [])))"

definition path_join :: "path \<Rightarrow> string \<Rightarrow> path" where
  "path_join folder name =
     (if folder = [] then (if name = [] then ''.'' else normalize name)
      else if name = [] then normalize folder
      else normalize (folder @ ''/'' @ name))"

section \<open>Own properties of an object\<close>

fun obj_set :: "string \<Rightarrow> json \<Rightarrow> (string \<times> json) list \<Rightarrow> (string \<times> json) list" where
  "obj_set k v [] = [(k, v)]"
| "obj_set k v ((k', v') # kvs) =
     (if k = k' then (k, v) # kvs else (k', v') # obj_set k v kvs)"

text \<open>Truthiness of a JSON value, as \<^verbatim>\<open>||\<close> and \<^verbatim>\<open>!\<close> test it.\<close>

fun truthy :: "json \<Rightarrow> bool" where
  "truthy JNull = False"
| "truthy (JBool b) = b"
| "truthy (JNum n) = (n \<noteq> 0)"
| "truthy (JStr s) = (s \<noteq> [])"
| "truthy (JArr _) = True"
| "truthy (JObj _) = True"

section \<open>The file-system collaborator\<close>

definition pathExists :: "filesystem \<Rightarrow> path \<Rightarrow> bool" where
  "pathExists fs p = (map_of fs p \<noteq> None)"

definition readFile :: "filesystem \<Rightarrow> path \<Rightarrow> error + string" where
  "readFile fs p =
     (case map_of fs p of
        None \<Rightarrow> Inl (FsError ''ENOENT'' p)
      | Some Dir \<Rightarrow> Inl (FsError ''EISDIR'' p)
      | Some (File s) \<Rightarrow> Inr s)"

definition fs_put :: "path \<Rightarrow> node \<Rightarrow> filesystem \<Rightarrow> filesystem" where
  "fs_put p n fs = (p, n) # filter (\<lambda>e. fst e \<noteq> p) fs"

definition writeFile :: "filesystem \<Rightarrow> path \<Rightarrow> string \<Rightarrow> error + filesystem" where
  "writeFile fs p s =
     (case map_of fs p of
        Some Dir \<Rightarrow> Inl (FsError ''EISDIR'' p)
      | _ \<Rightarrow> Inr (fs_put p (File s) fs))"

section \<open>Manifest rewriting\<close>

text \<open>
  The in-memory part of \<^verbatim>\<open>updatePackageJson\<close>, from the document \<^verbatim>\<open>readJson\<close>
  returned to the document \<^verbatim>\<open>writeJson\<close> serialises.  The method is part of a class
  body, which is strict code: creating a property on a primitive raises.  A property set
  on an array is not an element, so it is not serialised.
\<close>

definition set_bugs_url :: "string \<Rightarrow> (string \<times> json) list \<Rightarrow> error + (string \<times> json) list" where
  "set_bugs_url u kvs =
     (case map_of kvs ''bugs'' of
        Some (JObj b) \<Rightarrow> Inr (obj_set ''bugs'' (JObj (obj_set ''url'' (JStr u) b)) kvs)
      | Some (JArr a) \<Rightarrow> Inr kvs
      | _ \<Rightarrow> Inl (TypeError ''Cannot create property url on json.bugs''))"

definition rewriteManifest :: "string \<Rightarrow> json \<Rightarrow> error + json" where
  "rewriteManifest repoName j =
     (case j of
        JObj kvs \<Rightarrow>
          (let bugs = (case map_of kvs ''bugs'' of
                         Some b \<Rightarrow> if truthy b then b else JObj []
                       | None \<Rightarrow> JObj []);
               kvs1 = obj_set ''bugs'' bugs kvs;
               kvs2 = obj_set ''name'' (JStr (''@'' @ repoName)) kvs1;
               kvs3 = obj_set ''repository'' (JStr (''https://github.com/@'' @ repoName)) kvs2;
               kvs4 = obj_set ''homepage'' (JStr (''https://github.com/@'' @ repoName)) kvs3
           in case set_bugs_url (''https://github.com/@'' @ repoName @ ''/issues'') kvs4 of
                Inl e \<Rightarrow> Inl e
              | Inr kvs5 \<Rightarrow>
                  Inr (JObj (filter (\<lambda>kv. \<not> startsWith (fst kv) ''_'')
                                    (obj_set ''version'' (JStr ''0.0.1'') kvs5))))
      | JArr xs \<Rightarrow> Inr (JArr xs)
      | JNull \<Rightarrow> Inl (TypeError ''Cannot read properties of null'')
      | _ \<Rightarrow> Inl (TypeError ''Cannot create property bugs on a primitive''))"

text \<open>
  What the program takes from its runtime and its libraries: \<open>json_parse\<close> is
  \<^verbatim>\<open>JSON.parse\<close> of a text without its byte order mark (\<open>None\<close> when it raises),
  \<open>json_stringify\<close> the serialisation with two spaces that \<^verbatim>\<open>writeJson\<close> writes,
  \<open>git_clone\<close> the shallow clone of a URL into a folder, \<open>toUpperCase\<close> the method of
  strings, \<open>cwd\<close> the working directory of the process, \<open>template_dir\<close> the installed
  location of the bundled template, and \<open>require_resolve\<close> the file that \<^verbatim>\<open>require\<close>
  resolves a specifier that is not an absolute path to: a path relative to the directory
  of the program's module, or the name of a package among the installed modules
  (\<open>None\<close> when there is no such module).
\<close>

record runtime =
  json_parse :: "string \<Rightarrow> json option"
  json_stringify :: "json \<Rightarrow> string"
  git_clone :: "string \<Rightarrow> path \<Rightarrow> filesystem \<Rightarrow> error + filesystem"
  toUpperCase :: "string \<Rightarrow> string"
  cwd :: path
  template_dir :: path
  require_resolve :: "string \<Rightarrow> path option"

definition updatePackageJson ::
  "runtime \<Rightarrow> filesystem \<Rightarrow> path \<Rightarrow> string \<Rightarrow> (error + unit) \<times> filesystem" where
  "updatePackageJson rt fs repoFolder repoName =
     (let packageJsonFile = path_join repoFolder ''package.json'' in
      if \<not> pathExists fs packageJsonFile
      then (Inl (Error (packageJsonFile @ '' does not exist in '' @ repoFolder)), fs)
      else case readFile fs packageJsonFile of
             Inl e \<Rightarrow> (Inl e, fs)
           | Inr text \<Rightarrow>
               (case json_parse rt text of
                  None \<Rightarrow> (Inl (SyntaxError packageJsonFile), fs)
                | Some j \<Rightarrow>
                    (case rewriteManifest repoName j of
                       Inl e \<Rightarrow> (Inl e, fs)
                     | Inr out \<Rightarrow>
                         (case writeFile fs packageJsonFile (json_stringify rt out) of
                            Inl e \<Rightarrow> (Inl e, fs)
                          | Inr fs' \<Rightarrow> (Inr (), fs')))))"

section \<open>Parameter loading\<close>

text \<open>
  \<^verbatim>\<open>require\<close> of a specifier that ends in \<^verbatim>\<open>.json\<close>, for the first time in the
  process.  An absolute path is the file to load.  Any other specifier is resolved as a
  module first, and \<^verbatim>\<open>require\<close> raises when there is none, whatever files the working
  directory holds.  The file is read and parsed; a text that is not JSON raises.  What
  \<^verbatim>\<open>require\<close> tries for a path that is not a file is outside the model.
\<close>

definition load_json :: "runtime \<Rightarrow> filesystem \<Rightarrow> path \<Rightarrow> error + json" where
  "load_json rt fs p =
     (case map_of fs p of
        Some (File s) \<Rightarrow>
          (case json_parse rt s of
             None \<Rightarrow> Inl (SyntaxError p)
           | Some j \<Rightarrow> Inr j)
      | _ \<Rightarrow> Inl (Unmodelled ''require of a path that is not a file''))"

definition require_json :: "runtime \<Rightarrow> filesystem \<Rightarrow> string \<Rightarrow> error + json" where
  "require_json rt fs p =
     (if is_absolute p then load_json rt fs p
      else case require_resolve rt p of
             None \<Rightarrow> Inl (Error (''Cannot find module '' @ p))
           | Some q \<Rightarrow> load_json rt fs q)"

definition readParametersFile :: "runtime \<Rightarrow> filesystem \<Rightarrow> path \<Rightarrow> error + json" where
  "readParametersFile rt fs repoFolder =
     (let paramsFileName = ''template.parameters.json'';
          paramsFile = path_join repoFolder paramsFileName
      in if \<not> pathExists fs paramsFile
         then Inl (Error (paramsFileName @ '' does not exist in '' @ repoFolder))
         else require_json rt fs paramsFile)"

section \<open>Token substitution: the pattern engine\<close>

text \<open>
  The value of \<^verbatim>\<open>toFrom[from]\<close>.  \<^verbatim>\<open>toFrom\<close> is an object literal, so a name that is
  not one of its three own properties is looked up in \<^verbatim>\<open>Object.prototype\<close>.
\<close>

datatype jsvalue = Undefined | Str string | Inherited string

definition toFrom :: "string \<Rightarrow> string \<Rightarrow> (string \<times> string) list" where
  "toFrom libName repoName =
     [(''{{REPO}}'', repoName), (''{{LIB_NAME}}'', libName), (''LibNameCoreAPI'', libName)]"

definition object_prototype_names :: "string list" where
  "object_prototype_names =
     [''constructor'', ''__defineGetter__'', ''__defineSetter__'', ''hasOwnProperty'',
      ''__lookupGetter__'', ''__lookupSetter__'', ''isPrototypeOf'', ''propertyIsEnumerable'',
      ''toString'', ''valueOf'', ''__proto__'', ''toLocaleString'']"

definition get_property :: "(string \<times> string) list \<Rightarrow> string \<Rightarrow> jsvalue" where
  "get_property obj k =
     (case map_of obj k of
        Some v \<Rightarrow> Str v
      | None \<Rightarrow> if k \<in> set object_prototype_names then Inherited k else Undefined)"

fun truthy_value :: "jsvalue \<Rightarrow> bool" where
  "truthy_value Undefined = False"
| "truthy_value (Str s) = (s \<noteq> [])"
| "truthy_value (Inherited _) = True"

definition backslash :: char where
  "backslash = CHR 0x5C"

text \<open>\<^verbatim>\<open>from.replace(/\{/g, '\\{').replace(/\}/g, '\\}')\<close>\<close>

definition escape_braces :: "string \<Rightarrow> string" where
  "escape_braces s =
     concat (map (\<lambda>c. if c = CHR ''{'' \<or> c = CHR ''}'' then [backslash, c] else [c]) s)"

definition syntax_char :: "char \<Rightarrow> bool" where
  "syntax_char c = (c \<in> set (backslash # ''^$.*+?()[]{}|''))"

text \<open>
  \<^verbatim>\<open>new RegExp(from, 'g')\<close> for the patterns this program builds: a sequence of
  characters that stand for themselves and of escaped braces, which matches exactly one
  text.  Any other pattern syntax is outside the model (\<open>None\<close>).
\<close>

fun regexp_literal :: "string \<Rightarrow> string option" where
  "regexp_literal [] = Some []"
| "regexp_literal [c] = (if syntax_char c then None else Some [c])"
| "regexp_literal (c # d # ds) =
     (if c = backslash
      then (if d = CHR ''{'' \<or> d = CHR ''}''
            then map_option ((#) d) (regexp_literal ds) else None)
      else if syntax_char c then None
      else map_option ((#) c) (regexp_literal (d # ds)))"

text \<open>
  The expansion of a replacement string for one match of a pattern without capture
  groups: \<^verbatim>\<open>$$\<close> is a dollar, \<^verbatim>\<open>$&\<close> the matched text, \<^verbatim>\<open>$`\<close> the text before
  the match, \<^verbatim>\<open>$'\<close> the text after it; everything else stands for itself.
\<close>

fun get_substitution :: "string \<Rightarrow> string \<Rightarrow> string \<Rightarrow> string \<Rightarrow> string" where
  "get_substitution matched pre post [] = []"
| "get_substitution matched pre post [c] = [c]"
| "get_substitution matched pre post (c # d # r) =
     (if c = CHR ''$'' \<and> d = CHR ''$'' then CHR ''$'' # get_substitution matched pre post r
      else if c = CHR ''$'' \<and> d = CHR ''&'' then matched @ get_substitution matched pre post r
      else if c = CHR ''$'' \<and> d = CHR 0x60 then pre @ get_substitution matched pre post r
      else if c = CHR ''$'' \<and> d = CHR 0x27 then post @ get_substitution matched pre post r
      else c # get_substitution matched pre post (d # r))"

text \<open>
  What replaces one match, by the kind of \<^verbatim>\<open>to\<close>: a string is a replacement pattern;
  a function inherited from \<^verbatim>\<open>Object.prototype\<close> is called with the match and
  \<^verbatim>\<open>this\<close> undefined; the prototype object itself is converted to a string.
\<close>

definition replacement :: "jsvalue \<Rightarrow> string \<Rightarrow> string \<Rightarrow> string \<Rightarrow> error + string" where
  "replacement to matched pre post =
     (case to of
        Str v \<Rightarrow> Inr (get_substitution matched pre post v)
      | Undefined \<Rightarrow> Inr ''undefined''
      | Inherited name \<Rightarrow>
          if name = ''constructor'' then Inr matched
          else if name = ''toString'' then Inr ''[object Undefined]''
          else if name = ''isPrototypeOf'' then Inr ''false''
          else if name = ''__proto__'' then Inr ''[object Object]''
          else Inl (TypeError (''Cannot convert undefined or null to object: '' @ name)))"

text \<open>
  \<^verbatim>\<open>contents.replace(pattern, to)\<close> with the global flag, for a pattern that matches the
  text \<open>p\<close>: a scan from the left over the text still to read, \<open>pre\<close> holding the
  text already read and \<open>k\<close> the characters of the current match still to skip.
\<close>

fun replace_scan ::
  "string \<Rightarrow> jsvalue \<Rightarrow> string \<Rightarrow> nat \<Rightarrow> string \<Rightarrow> error + string" where
  "replace_scan p to pre k [] =
     (if p = [] \<and> k = 0 then replacement to [] pre [] else Inr [])"
| "replace_scan p to pre (Suc k) (c # cs) = replace_scan p to (pre @ [c]) k cs"
| "replace_scan p to pre 0 (c # cs) =
     (if startsWith (c # cs) p
      then (case replacement to p pre (drop (length p) (c # cs)) of
              Inl e \<Rightarrow> Inl e
            | Inr s \<Rightarrow>
                (case replace_scan p to (pre @ [c]) (length p - 1) cs of
                   Inl e \<Rightarrow> Inl e
                 | Inr t \<Rightarrow> Inr (s @ (if p = [] then [c] else []) @ t)))
      else (case replace_scan p to (pre @ [c]) 0 cs of
              Inl e \<Rightarrow> Inl e
            | Inr t \<Rightarrow> Inr (c # t)))"

definition replace_global :: "string \<Rightarrow> jsvalue \<Rightarrow> string \<Rightarrow> error + string" where
  "replace_global p to contents = replace_scan p to [] 0 contents"

section \<open>The world a run acts on\<close>

datatype stage =
    CloneTemplate | CopyTemplate | RemoveDotGit | ReadParameters
  | UpdatePackageJson | ReplaceText | Cleanup | LibLocation

text \<open>
  \<open>files\<close> is the file system; \<open>stderr\<close> the lines written with \<^verbatim>\<open>console.error\<close>;
  \<open>unhandled\<close> the rejections of promises that nothing awaits; \<open>written\<close> the paths
  token substitution passed to \<^verbatim>\<open>writeFile\<close>; \<open>trace\<close> the stages the task runner
  started, in order.

  A file operation that token substitution or cleanup starts without awaiting it is
  modelled as completing where it is started; what the model keeps of its being detached
  is that its failure reaches \<open>unhandled\<close> and never the result of the stage that started
  it.  The clone that the first step starts without awaiting it is different: it needs the
  network, and the steps that follow start before it has written a file.  The world of the
  model ends with the last step, so neither the files of the clone nor its failure are
  part of it; that the clone was started is the \<open>CloneTemplate\<close> entry of \<open>trace\<close>.
\<close>

record world =
  files :: filesystem
  stderr :: "string list"
  unhandled :: "error list"
  written :: "path list"
  trace :: "stage list"

section \<open>Token substitution: the stage\<close>

text \<open>The parameter manifest: a JSON object from tokens to arrays of relative paths.\<close>

fun json_strings :: "json list \<Rightarrow> string list option" where
  "json_strings [] = Some []"
| "json_strings (JStr s # js) = map_option ((#) s) (json_strings js)"
| "json_strings (_ # js) = None"

fun manifest_entries :: "(string \<times> json) list \<Rightarrow> (string \<times> string list) list option" where
  "manifest_entries [] = Some []"
| "manifest_entries ((token, JArr paths) # kvs) =
     (case json_strings paths of
        None \<Rightarrow> None
      | Some ps \<Rightarrow> map_option ((#) (token, ps)) (manifest_entries kvs))"
| "manifest_entries (_ # kvs) = None"

fun manifest_of :: "json \<Rightarrow> (string \<times> string list) list option" where
  "manifest_of (JObj kvs) = manifest_entries kvs"
| "manifest_of _ = None"

text \<open>\<^verbatim>\<open>new Set([...set, ...values])\<close>: insertion order, first occurrences kept.\<close>

fun set_add :: "string list \<Rightarrow> string list \<Rightarrow> string list" where
  "set_add acc [] = acc"
| "set_add acc (v # vs) = set_add (if v \<in> set acc then acc else acc @ [v]) vs"

definition pathItemSet :: "(string \<times> string list) list \<Rightarrow> string list" where
  "pathItemSet paramsJson =
     foldl (\<lambda>acc key. case map_of paramsJson key of
                         Some values \<Rightarrow> set_add acc values
                       | None \<Rightarrow> acc)
           [] (map fst paramsJson)"

definition tokens_of :: "(string \<times> string list) list \<Rightarrow> string \<Rightarrow> string list" where
  "tokens_of paramsJson pathItem =
     filter (\<lambda>token. case map_of paramsJson token of
                        Some paths \<Rightarrow> pathItem \<in> set paths
                      | None \<Rightarrow> False)
            (map fst paramsJson)"

text \<open>
  The body of \<^verbatim>\<open>tokens.forEach(async from => ...)\<close> for one token, on the contents
  accumulated so far.  The callback has no \<^verbatim>\<open>await\<close>, so it runs to its end when it is
  called; what it throws rejects a promise that \<^verbatim>\<open>forEach\<close> drops.
\<close>

definition replace_token ::
  "(string \<times> string) list \<Rightarrow> string \<times> world \<Rightarrow> string \<Rightarrow> string \<times> world" where
  "replace_token table cw from =
     (let contents = fst cw; w = snd cw; to = get_property table from in
      if \<not> truthy_value to
      then (contents, w\<lparr>stderr := stderr w @ [''No mapping found, skipping replace of '' @ from]\<rparr>)
      else case regexp_literal (escape_braces from) of
             None \<Rightarrow> (contents, w\<lparr>unhandled := unhandled w @ [Unmodelled ''RegExp syntax'']\<rparr>)
           | Some p \<Rightarrow>
               (case replace_global p to contents of
                  Inl e \<Rightarrow> (contents, w\<lparr>unhandled := unhandled w @ [e]\<rparr>)
                | Inr contents' \<Rightarrow> (contents', w)))"

text \<open>
  The body of \<^verbatim>\<open>pathItemSet.forEach(async pathItem => ...)\<close> for one path.  Every such
  callback starts its read before any of them writes, so the read is from the files as
  the stage found them (\<open>fs0\<close>).  A failed read or write rejects a promise that
  \<^verbatim>\<open>forEach\<close> drops.
\<close>

definition replace_file ::
  "path \<Rightarrow> (string \<times> string list) list \<Rightarrow> (string \<times> string) list \<Rightarrow> filesystem \<Rightarrow>
   world \<Rightarrow> string \<Rightarrow> world" where
  "replace_file repoFolder paramsJson table fs0 w pathItem =
     (let tokens = tokens_of paramsJson pathItem;
          filePath = path_join repoFolder pathItem
      in case readFile fs0 filePath of
           Inl e \<Rightarrow> w\<lparr>unhandled := unhandled w @ [e]\<rparr>
         | Inr text \<Rightarrow>
             (let cw = foldl (replace_token table) (text, w) tokens;
                  fileContents = fst cw; w1 = snd cw
              in if length tokens > 0
                 then (case writeFile (files w1) filePath fileContents of
                         Inl e \<Rightarrow> w1\<lparr>unhandled := unhandled w1 @ [e],
                                       written := written w1 @ [filePath]\<rparr>
                       | Inr fs' \<Rightarrow> w1\<lparr>files := fs', written := written w1 @ [filePath]\<rparr>)
                 else w1))"

text \<open>
  \<^verbatim>\<open>replaceText\<close> returns once every callback has reached its first \<^verbatim>\<open>await\<close>: its
  own promise is fulfilled whatever the callbacks do later.  A manifest that is not an
  object of arrays of strings is outside the model.
\<close>

definition replaceText ::
  "world \<Rightarrow> path \<Rightarrow> json \<Rightarrow> string \<Rightarrow> string \<Rightarrow> (error + unit) \<times> world" where
  "replaceText w repoFolder paramsJson libName repoName =
     (case manifest_of paramsJson of
        None \<Rightarrow> (Inl (Unmodelled ''parameter manifest of another shape''), w)
      | Some m \<Rightarrow>
          (Inr (), foldl (replace_file repoFolder m (toFrom libName repoName) (files w)) w
                         (pathItemSet m)))"

section \<open>Removing, moving and copying trees\<close>

definition under_path :: "path \<Rightarrow> path \<Rightarrow> bool" where
  "under_path p q = (q = p \<or> startsWith q (p @ ''/''))"

text \<open>\<^verbatim>\<open>fse.remove\<close>: the entry and everything below it; a missing path is no error.\<close>

definition remove :: "filesystem \<Rightarrow> path \<Rightarrow> filesystem" where
  "remove fs p = filter (\<lambda>e. \<not> under_path p (fst e)) fs"

text \<open>\<^verbatim>\<open>fse.move\<close> without the overwrite option.\<close>

definition move :: "filesystem \<Rightarrow> path \<Rightarrow> path \<Rightarrow> error + filesystem" where
  "move fs src dest =
     (if \<not> pathExists fs src then Inl (FsError ''ENOENT'' src)
      else if pathExists fs dest then Inl (Error ''dest already exists.'')
      else Inr (map (\<lambda>e. if under_path src (fst e) then (dest @ drop (length src) (fst e), snd e) else e)
                    fs))"

text \<open>The entries of a file system that a lookup can see, each path once.\<close>

fun visible :: "filesystem \<Rightarrow> filesystem" where
  "visible [] = []"
| "visible (e # es) = e # filter (\<lambda>x. fst x \<noteq> fst e) (visible es)"

text \<open>
  \<^verbatim>\<open>fse.copy\<close>, entry by entry: a directory is created where missing, a file is
  written where missing, replaces an existing file with \<open>overwrite\<close>, and is an error
  on an existing file with \<open>errorOnExist\<close> and no \<open>overwrite\<close>.  An error stops the copy
  and leaves what was copied before it.
\<close>

fun copy_entries :: "bool \<Rightarrow> bool \<Rightarrow> filesystem \<Rightarrow> filesystem \<Rightarrow> (error + unit) \<times> filesystem" where
  "copy_entries overwrite errorOnExist [] fs = (Inr (), fs)"
| "copy_entries overwrite errorOnExist ((q, Dir) # es) fs =
     (case map_of fs q of
        Some (File _) \<Rightarrow> (Inl (Error (''Cannot overwrite non-directory '' @ q @ '' with directory'')), fs)
      | _ \<Rightarrow> copy_entries overwrite errorOnExist es (fs_put q Dir fs))"
| "copy_entries overwrite errorOnExist ((q, File s) # es) fs =
     (case map_of fs q of
        None \<Rightarrow> copy_entries overwrite errorOnExist es (fs_put q (File s) fs)
      | Some Dir \<Rightarrow> (Inl (Error (''Cannot overwrite directory '' @ q @ '' with non-directory'')), fs)
      | Some (File _) \<Rightarrow>
          if overwrite then copy_entries overwrite errorOnExist es (fs_put q (File s) fs)
          else if errorOnExist then (Inl (Error (q @ '' already exists'')), fs)
          else copy_entries overwrite errorOnExist es fs)"

definition source_entries :: "filesystem \<Rightarrow> path \<Rightarrow> path \<Rightarrow> filesystem" where
  "source_entries fs src dest =
     map (\<lambda>e. (dest @ drop (length src) (fst e), snd e))
         (filter (\<lambda>e. under_path src (fst e)) (visible fs))"

definition copy :: "filesystem \<Rightarrow> path \<Rightarrow> path \<Rightarrow> bool \<Rightarrow> bool \<Rightarrow> (error + unit) \<times> filesystem" where
  "copy fs src dest overwrite errorOnExist =
     (if \<not> pathExists fs src then (Inl (FsError ''ENOENT'' src), fs)
      else copy_entries overwrite errorOnExist (source_entries fs src dest) fs)"

section \<open>The other stages\<close>

definition copyTemplate :: "runtime \<Rightarrow> filesystem \<Rightarrow> path \<Rightarrow> bool \<Rightarrow> (error + unit) \<times> filesystem" where
  "copyTemplate rt fs toFolder overwrite =
     copy fs (template_dir rt) toFolder overwrite (\<not> overwrite)"

definition cloneRepo :: "runtime \<Rightarrow> filesystem \<Rightarrow> string \<Rightarrow> path \<Rightarrow> (error + unit) \<times> filesystem" where
  "cloneRepo rt fs url toFolder =
     (case git_clone rt url toFolder fs of
        Inl e \<Rightarrow> (Inl e, fs)
      | Inr fs' \<Rightarrow> (Inr (), fs'))"

definition removeDotGitFolder :: "filesystem \<Rightarrow> path \<Rightarrow> (error + unit) \<times> filesystem" where
  "removeDotGitFolder fs repoFolder = (Inr (), remove fs (path_join repoFolder ''.git''))"

text \<open>An operation started and not awaited: its failure is a rejection nothing handles.\<close>

definition detached :: "world \<Rightarrow> error + filesystem \<Rightarrow> world" where
  "detached w r =
     (case r of
        Inl e \<Rightarrow> w\<lparr>unhandled := unhandled w @ [e]\<rparr>
      | Inr fs' \<Rightarrow> w\<lparr>files := fs'\<rparr>)"

definition filesToRemove :: "string list" where
  "filesToRemove = [''types.d.ts'', ''template.parameters.json'']"

definition filesToRename :: "(string \<times> string) list" where
  "filesToRename = [(''gitignore.template'', ''.gitignore''), (''npmrc.template'', ''.npmrc'')]"

definition cleanup :: "world \<Rightarrow> path \<Rightarrow> (error + unit) \<times> world" where
  "cleanup w repoFolder =
     (let w1 = foldl (\<lambda>w filePath. detached w (Inr (remove (files w) filePath))) w
                     (map (path_join repoFolder) filesToRemove);
          w2 = foldl (\<lambda>w key. case map_of filesToRename key of
                                 None \<Rightarrow> w
                               | Some v \<Rightarrow>
                                   detached w (move (files w) (path_join repoFolder key)
                                                    (path_join repoFolder v)))
                     w1 (map fst filesToRename)
      in (Inr (), w2))"

section \<open>The run\<close>


record run_context =
  ctx_templateUrl :: "string option"
  ctx_templateFolder :: path
  ctx_libName :: string
  ctx_repoName :: string
  ctx_overwrite :: bool
  ctx_paramsJson :: "json option"

fun message :: "error \<Rightarrow> string" where
  "message (Error m) = m"
| "message (CLIError m) = m"
| "message (TypeError m) = m"
| "message (SyntaxError p) = ''Unexpected token in JSON: '' @ p"
| "message (FsError code p) = code @ '': '' @ p"
| "message (Unmodelled m) = m"

definition with_files :: "world \<Rightarrow> run_context \<Rightarrow> (error + unit) \<times> filesystem \<Rightarrow> (error + run_context) \<times> world" where
  "with_files w ctx r =
     (case fst r of
        Inl e \<Rightarrow> (Inl e, w\<lparr>files := snd r\<rparr>)
      | Inr _ \<Rightarrow> (Inr ctx, w\<lparr>files := snd r\<rparr>))"

text \<open>
  The task of each step, as the task runner awaits it.  The task of the clone step calls
  \<^verbatim>\<open>cloneRepo\<close> and drops its promise, so the task runner awaits nothing and the step
  leaves the world as it found it.
\<close>

fun run_task :: "runtime \<Rightarrow> stage \<Rightarrow> run_context \<Rightarrow> world \<Rightarrow> (error + run_context) \<times> world" where
  "run_task rt CloneTemplate ctx w = (Inr ctx, w)"
| "run_task rt CopyTemplate ctx w =
     with_files w ctx (copyTemplate rt (files w) (ctx_templateFolder ctx) (ctx_overwrite ctx))"
| "run_task rt RemoveDotGit ctx w =
     with_files w ctx (removeDotGitFolder (files w) (ctx_templateFolder ctx))"
| "run_task rt ReadParameters ctx w =
     (case readParametersFile rt (files w) (ctx_templateFolder ctx) of
        Inl e \<Rightarrow> (Inl e, w)
      | Inr j \<Rightarrow> (Inr (ctx\<lparr>ctx_paramsJson := Some j\<rparr>), w))"
| "run_task rt UpdatePackageJson ctx w =
     with_files w ctx (updatePackageJson rt (files w) (ctx_templateFolder ctx) (ctx_repoName ctx))"
| "run_task rt ReplaceText ctx w =
     (case ctx_paramsJson ctx of
        None \<Rightarrow> (Inl (TypeError ''Cannot convert undefined or null to object''), w)
      | Some j \<Rightarrow>
          (let r = replaceText w (ctx_templateFolder ctx) j (ctx_libName ctx) (ctx_repoName ctx)
           in (case fst r of Inl e \<Rightarrow> (Inl e, snd r) | Inr _ \<Rightarrow> (Inr ctx, snd r))))"
| "run_task rt Cleanup ctx w =
     (let r = cleanup w (ctx_templateFolder ctx)
      in (case fst r of Inl e \<Rightarrow> (Inl e, snd r) | Inr _ \<Rightarrow> (Inr ctx, snd r)))"
| "run_task rt LibLocation ctx w = (Inr ctx, w)"

text \<open>Truthiness of a flag that may be absent: \<^verbatim>\<open>if (templateUrl)\<close>.\<close>

definition is_set :: "string option \<Rightarrow> bool" where
  "is_set flag = (case flag of None \<Rightarrow> False | Some u \<Rightarrow> u \<noteq> [])"

definition steps :: "string option \<Rightarrow> stage list" where
  "steps templateUrl =
     (if is_set templateUrl then CloneTemplate else CopyTemplate)
     # [RemoveDotGit, ReadParameters, UpdatePackageJson, ReplaceText, Cleanup, LibLocation]"

text \<open>
  The task runner: the steps in order, each awaited; the first that fails stops the run,
  and its message is reported with \<^verbatim>\<open>this.error\<close>.
\<close>

fun run_steps :: "runtime \<Rightarrow> stage list \<Rightarrow> run_context \<Rightarrow> world \<Rightarrow> (error + unit) \<times> world" where
  "run_steps rt [] ctx w = (Inr (), w)"
| "run_steps rt (st # sts) ctx w =
     (case run_task rt st ctx (w\<lparr>trace := trace w @ [st]\<rparr>) of
        (Inl e, w') \<Rightarrow> (Inl (CLIError (message e)), w')
      | (Inr ctx', w') \<Rightarrow> run_steps rt sts ctx' w')"





section \<open>Literal replacement, as the specification words it\<close>

text \<open>
  The global literal-text replacement of the specification: every occurrence of the
  token, found from the left without overlap, is replaced by the value as it stands.
  \<open>k\<close> counts the characters of the current occurrence still to skip.
\<close>

fun literal_scan :: "string \<Rightarrow> string \<Rightarrow> nat \<Rightarrow> string \<Rightarrow> string" where
  "literal_scan token v k [] = []"
| "literal_scan token v (Suc k) (c # cs) = literal_scan token v k cs"
| "literal_scan token v 0 (c # cs) =
     (if token \<noteq> [] \<and> startsWith (c # cs) token
      then v @ literal_scan token v (length token - 1) cs
      else c # literal_scan token v 0 cs)"

definition literal_replace_all :: "string \<Rightarrow> string \<Rightarrow> string \<Rightarrow> string" where
  "literal_replace_all token v contents = literal_scan token v 0 contents"

text \<open>
  A replacement value without any of the patterns \<^verbatim>\<open>$$\<close>, \<^verbatim>\<open>$&\<close>, \<^verbatim>\<open>$`\<close> and
  \<^verbatim>\<open>$'\<close>.
\<close>

fun plain_value :: "string \<Rightarrow> bool" where
  "plain_value [] = True"
| "plain_value [c] = True"
| "plain_value (c # d # r) =
     (\<not> (c = CHR ''$'' \<and> (d = CHR ''$'' \<or> d = CHR ''&'' \<or> d = CHR 0x60 \<or> d = CHR 0x27))
      \<and> plain_value (d # r))"

section \<open>Lookups in objects and in the file system\<close>

lemmas path_join_eval =
  path_join_def normalize_def is_absolute_def startsWith_def push_segment_def Let_def

lemma is_absolute_normalize: "is_absolute p \<Longrightarrow> is_absolute (normalize p)"
  by (auto simp: normalize_def is_absolute_def startsWith_def Let_def)

lemma is_absolute_path_join: "is_absolute folder \<Longrightarrow> is_absolute (path_join folder name)"
proof -
  assume a: "is_absolute folder"
  then have ne: "folder \<noteq> []" by (auto simp: is_absolute_def startsWith_def)
  from a have "is_absolute (folder @ ''/'' @ name)"
    by (cases folder) (auto simp: is_absolute_def startsWith_def)
  with a ne show ?thesis by (simp add: path_join_def is_absolute_normalize)
qed

lemma map_of_obj_set:
  "map_of (obj_set k v kvs) k' = (if k' = k then Some v else map_of kvs k')"
  by (induction kvs) auto

lemma map_of_filter_fst:
  "map_of (filter (\<lambda>kv. P (fst kv)) kvs) k = (if P k then map_of kvs k else None)"
  by (induction kvs) auto

lemma map_of_fs_put: "map_of (fs_put p n fs) q = (if q = p then Some n else map_of fs q)"
  unfolding fs_put_def using map_of_filter_fst [of "\<lambda>x. x \<noteq> p" fs q] by simp

lemma readFile_writeFile: "writeFile fs p s = Inr fs' \<Longrightarrow> readFile fs' p = Inr s"
  by (auto simp: writeFile_def readFile_def map_of_fs_put split: option.splits node.splits)

section \<open>Manifest rewriting: the identity fields\<close>

text \<open>
  Claim C1 says that the rewritten manifest has \<open>name\<close> equal to \<open>@\<close> followed by the
  repo name, \<open>repository\<close> and \<open>homepage\<close> equal to \<open>https://github.com/\<close> followed by the
  repo name, \<open>bugs.url\<close> equal to that followed by \<open>/issues\<close>, and \<open>version\<close> equal to
  \<open>0.0.1\<close>.  On the input of the repository's own test of \<^verbatim>\<open>updatePackageJson\<close> (repo
  name \<open>example/repo\<close>, manifest \<open>{name: 'oldName'}\<close>) the code writes the three URLs with
  an \<open>@\<close> before the repo name, where the claim and the test expect none.
\<close>

theorem rewriteManifest_test_input:
  "rewriteManifest ''example/repo'' (JObj [(''name'', JStr ''oldName'')]) =
     Inr (JObj [(''name'', JStr ''@example/repo''),
                (''bugs'', JObj [(''url'', JStr ''https://github.com/@example/repo/issues'')]),
                (''repository'', JStr ''https://github.com/@example/repo''),
                (''homepage'', JStr ''https://github.com/@example/repo''),
                (''version'', JStr ''0.0.1'')])"
  by (simp add: rewriteManifest_def set_bugs_url_def startsWith_def)

section \<open>Manifest rewriting: the other fields\<close>

lemma set_bugs_url_other:
  "set_bugs_url u kvs = Inr kvs' \<Longrightarrow> k \<noteq> ''bugs'' \<Longrightarrow> map_of kvs' k = map_of kvs k"
  by (auto simp: set_bugs_url_def map_of_obj_set split: option.splits json.splits)

lemma rewriteManifest_obj:
  assumes "rewriteManifest repoName (JObj kvs) = Inr out"
  shows "\<exists>kvs'. out = JObj kvs'
           \<and> (\<forall>k. startsWith k ''_'' \<longrightarrow> map_of kvs' k = None)
           \<and> (\<forall>k. \<not> startsWith k ''_''
                    \<and> k \<notin> {''name'', ''repository'', ''homepage'', ''bugs'', ''version''}
                  \<longrightarrow> map_of kvs' k = map_of kvs k)"
proof -
  define bugs where "bugs = (case map_of kvs ''bugs'' of
                         Some b \<Rightarrow> if truthy b then b else JObj []
                       | None \<Rightarrow> JObj [])"
  define kvs4 where "kvs4 = obj_set ''homepage'' (JStr (''https://github.com/@'' @ repoName))
     (obj_set ''repository'' (JStr (''https://github.com/@'' @ repoName))
       (obj_set ''name'' (JStr (''@'' @ repoName)) (obj_set ''bugs'' bugs kvs)))"
  from assms obtain kvs5 where
    five: "set_bugs_url (''https://github.com/@'' @ repoName @ ''/issues'') kvs4 = Inr kvs5"
    and out: "out = JObj (filter (\<lambda>kv. \<not> startsWith (fst kv) ''_'')
                                    (obj_set ''version'' (JStr ''0.0.1'') kvs5))"
    by (auto simp: rewriteManifest_def Let_def bugs_def kvs4_def split: sum.splits)
  have purge: "map_of (filter (\<lambda>kv. \<not> startsWith (fst kv) ''_'') xs) k
        = (if \<not> startsWith k ''_'' then map_of xs k else None)"
    for xs :: "(string \<times> json) list" and k
    using map_of_filter_fst [of "\<lambda>k. \<not> startsWith k ''_''" xs k] by simp
  have keep: "map_of kvs5 k = map_of kvs k"
    if "k \<notin> {''name'', ''repository'', ''homepage'', ''bugs'', ''version''}" for k
  proof -
    from that have "k \<noteq> ''bugs''" by simp
    with five have "map_of kvs5 k = map_of kvs4 k" by (rule set_bugs_url_other)
    also from that have "\<dots> = map_of kvs k" by (simp add: kvs4_def map_of_obj_set)
    finally show ?thesis .
  qed
  show ?thesis
  proof (intro exI conjI allI impI)
    show "out = JObj (filter (\<lambda>kv. \<not> startsWith (fst kv) ''_'')
                                    (obj_set ''version'' (JStr ''0.0.1'') kvs5))" by (rule out)
  next
    fix k assume "startsWith k ''_''"
    then show "map_of (filter (\<lambda>kv. \<not> startsWith (fst kv) ''_'')
                                    (obj_set ''version'' (JStr ''0.0.1'') kvs5)) k = None"
      by (simp add: purge)
  next
    fix k
    assume k: "\<not> startsWith k ''_''
                 \<and> k \<notin> {''name'', ''repository'', ''homepage'', ''bugs'', ''version''}"
    then have "k \<noteq> ''version''" by simp
    with k show "map_of (filter (\<lambda>kv. \<not> startsWith (fst kv) ''_'')
                                    (obj_set ''version'' (JStr ''0.0.1'') kvs5)) k = map_of kvs k"
      using keep [of k] by (simp add: purge map_of_obj_set)
  qed
qed

text \<open>
  Claim C4: whenever the stage succeeds on a package manifest (a JSON object), the
  manifest it writes has no top-level field whose key starts with an underscore, and every
  other field that is not one of \<open>name\<close>, \<open>repository\<close>, \<open>homepage\<close>, \<open>bugs\<close>, \<open>version\<close>
  has the value it had in the input.
\<close>

theorem updatePackageJson_frame:
  assumes "readFile fs (path_join repoFolder ''package.json'') = Inr text"
    and "json_parse rt text = Some (JObj kvs)"
    and "updatePackageJson rt fs repoFolder repoName = (Inr (), fs')"
  shows "\<exists>out. rewriteManifest repoName (JObj kvs) = Inr (JObj out)
           \<and> readFile fs' (path_join repoFolder ''package.json'')
               = Inr (json_stringify rt (JObj out))
           \<and> (\<forall>k. startsWith k ''_'' \<longrightarrow> map_of out k = None)
           \<and> (\<forall>k. \<not> startsWith k ''_''
                    \<and> k \<notin> {''name'', ''repository'', ''homepage'', ''bugs'', ''version''}
                  \<longrightarrow> map_of out k = map_of kvs k)"
proof -
  from assms obtain out where
    rw: "rewriteManifest repoName (JObj kvs) = Inr out"
    and wr: "writeFile fs (path_join repoFolder ''package.json'') (json_stringify rt out) = Inr fs'"
    by (auto simp: updatePackageJson_def Let_def split: if_splits sum.splits)
  from rewriteManifest_obj [OF rw] obtain kvs' where
    "out = JObj kvs'"
    "\<forall>k. startsWith k ''_'' \<longrightarrow> map_of kvs' k = None"
    "\<forall>k. \<not> startsWith k ''_''
           \<and> k \<notin> {''name'', ''repository'', ''homepage'', ''bugs'', ''version''}
         \<longrightarrow> map_of kvs' k = map_of kvs k"
    by blast
  with rw readFile_writeFile [OF wr] show ?thesis by blast
qed

theorem updatePackageJson_frame_witness:
  "readFile [(''/w/lib/package.json'', File ''{}'')] (path_join ''/w/lib'' ''package.json'') = Inr ''{}''
   \<and> (\<exists>out. rewriteManifest ''org/bar''
               (JObj [(''name'', JStr ''t''), (''_id'', JNum 3), (''license'', JStr ''MIT'')])
             = Inr (JObj out)
           \<and> map_of out ''_id'' = None \<and> map_of out ''license'' = Some (JStr ''MIT''))"
proof -
  let ?doc = "[(''name'', JStr ''t''), (''_id'', JNum 3), (''license'', JStr ''MIT'')]"
  let ?rt = "\<lparr>json_parse = (\<lambda>s. Some (JObj ?doc)),
       json_stringify = (\<lambda>j. ''{}''), git_clone = (\<lambda>u p fs. Inr fs), toUpperCase = (\<lambda>s. s),
       cwd = ''/w'', template_dir = ''/t'',
       require_resolve = (\<lambda>p. None)\<rparr>"
  let ?fs = "[(''/w/lib/package.json'', File ''{}'')]"
  have r: "readFile ?fs (path_join ''/w/lib'' ''package.json'') = Inr ''{}''"
    by (simp add: readFile_def path_join_eval)
  have p: "json_parse ?rt ''{}'' = Some (JObj ?doc)"
    by simp
  have u: "updatePackageJson ?rt ?fs ''/w/lib'' ''org/bar'' = (Inr (), ?fs)"
    by (simp add: updatePackageJson_def rewriteManifest_def set_bugs_url_def startsWith_def
        path_join_eval pathExists_def readFile_def writeFile_def fs_put_def)
  from updatePackageJson_frame [OF r p u] obtain out where
    o: "rewriteManifest ''org/bar'' (JObj ?doc) = Inr (JObj out)"
    and a: "\<forall>k. startsWith k ''_'' \<longrightarrow> map_of out k = None"
    and b: "\<forall>k. \<not> startsWith k ''_''
                  \<and> k \<notin> {''name'', ''repository'', ''homepage'', ''bugs'', ''version''}
                \<longrightarrow> map_of out k = map_of ?doc k"
    by blast
  from a have "map_of out ''_id'' = None" by (simp add: startsWith_def)
  moreover from b have "map_of out ''license'' = Some (JStr ''MIT'')" by (simp add: startsWith_def)
  ultimately show ?thesis using o r by blast
qed

section \<open>Replacement patterns in a resolved value\<close>

text \<open>
  Claim C9: token substitution does not insert the resolved value as it stands when the
  value contains a replacement pattern.  For the library name \<open>Cash$&Carry\<close> and a file
  that contains the token \<open>{{LIB_NAME}}\<close>, the file that is written has the token itself
  where \<open>$&\<close> stands in the value, and so differs from the literal replacement.
\<close>

theorem replaceText_expands_dollar_patterns:
  "replaceText \<lparr>files = [(''/w/lib/a.txt'', File ''use {{LIB_NAME}} here'')],
                 stderr = [], unhandled = [], written = [], trace = []\<rparr>
       ''/w/lib'' (JObj [(''{{LIB_NAME}}'', JArr [JStr ''a.txt''])]) ''Cash$&Carry'' ''org/bar''
     = (Inr (), \<lparr>files = [(''/w/lib/a.txt'', File ''use Cash{{LIB_NAME}}Carry here'')],
                 stderr = [], unhandled = [], written = [''/w/lib/a.txt''], trace = []\<rparr>)
   \<and> literal_replace_all ''{{LIB_NAME}}'' ''Cash$&Carry'' ''use {{LIB_NAME}} here''
     = ''use Cash$&Carry here''"
  by (simp add: replaceText_def replace_file_def replace_token_def tokens_of_def pathItemSet_def
      toFrom_def get_property_def object_prototype_names_def escape_braces_def backslash_def
      syntax_char_def replace_global_def replacement_def startsWith_def path_join_eval
      readFile_def writeFile_def fs_put_def literal_replace_all_def Let_def)

section \<open>Cleanup\<close>

lemma pathExists_remove: "pathExists (remove fs p) q \<Longrightarrow> pathExists fs q"
  unfolding pathExists_def remove_def
  using map_of_filter_fst [of "\<lambda>x. \<not> under_path p x" fs q] by (simp split: if_splits)

text \<open>
  Claim C10: the cleanup stage never raises, whatever the files are.  The removals and
  the renames are started and not awaited, so the stage returns success also when one of
  them fails: a rename whose source is missing fails, and its failure is a rejection that
  nothing handles.
\<close>

theorem cleanup_always_succeeds:
  "fst (cleanup w repoFolder) = Inr ()
   \<and> (\<not> pathExists (files w) (path_join repoFolder ''gitignore.template'')
        \<longrightarrow> FsError ''ENOENT'' (path_join repoFolder ''gitignore.template'')
              \<in> set (unhandled (snd (cleanup w repoFolder))))"
proof -
  have "fst (cleanup w repoFolder) = Inr ()" by (simp add: cleanup_def Let_def)
  moreover have "FsError ''ENOENT'' (path_join repoFolder ''gitignore.template'')
              \<in> set (unhandled (snd (cleanup w repoFolder)))"
    if "\<not> pathExists (files w) (path_join repoFolder ''gitignore.template'')"
  proof -
    from that have "\<not> pathExists
        (remove (remove (files w) (path_join repoFolder ''types.d.ts''))
                (path_join repoFolder ''template.parameters.json''))
        (path_join repoFolder ''gitignore.template'')"
      using pathExists_remove by blast
    then show ?thesis
      by (simp add: cleanup_def Let_def filesToRemove_def filesToRename_def detached_def move_def
          split: sum.splits)
  qed
  ultimately show ?thesis by blast
qed

theorem cleanup_always_succeeds_witness:
  "\<not> pathExists [(''/w/lib'', Dir)] (path_join ''/w/lib'' ''gitignore.template'')
   \<and> fst (cleanup \<lparr>files = [(''/w/lib'', Dir)], stderr = [], unhandled = [], written = [],
                    trace = []\<rparr> ''/w/lib'') = Inr ()
   \<and> FsError ''ENOENT'' (path_join ''/w/lib'' ''gitignore.template'')
       \<in> set (unhandled (snd (cleanup \<lparr>files = [(''/w/lib'', Dir)], stderr = [], unhandled = [],
                                        written = [], trace = []\<rparr> ''/w/lib'')))"
proof -
  have h: "\<not> pathExists (files \<lparr>files = [(''/w/lib'', Dir)], stderr = [], unhandled = [],
                               written = [], trace = []\<rparr>)
                        (path_join ''/w/lib'' ''gitignore.template'')"
    by (simp add: pathExists_def path_join_eval)
  with cleanup_always_succeeds
         [of "\<lparr>files = [(''/w/lib'', Dir)], stderr = [], unhandled = [], written = [],
               trace = []\<rparr>" "''/w/lib''"]
  show ?thesis by simp
qed

section \<open>A path of the manifest that is not on disk\<close>

lemma replaceText_never_fails:
  "manifest_of paramsJson = Some m \<Longrightarrow>
   fst (replaceText w repoFolder paramsJson libName repoName) = Inr ()"
  by (simp add: replaceText_def)

text \<open>
  Claim C2 says that a path of the parameter manifest that does not exist under the
  destination folder ends the run with a fatal error in the token substitution stage, and
  that cleanup does not execute.  With the manifest \<open>{"{{REPO}}": ["missing.txt"]}\<close> and
  no \<open>missing.txt\<close>, the steps from token substitution on all run and the run succeeds:
  the failed read rejects the promise of a \<^verbatim>\<open>forEach\<close> callback, which nothing awaits.
\<close>

theorem run_steps_missing_path:
  "run_steps rt (drop 4 (steps None))
     \<lparr>ctx_templateUrl = None, ctx_templateFolder = ''/w/lib'', ctx_libName = ''Foo'',
      ctx_repoName = ''org/bar'', ctx_overwrite = False,
      ctx_paramsJson = Some (JObj [(''{{REPO}}'', JArr [JStr ''missing.txt''])])\<rparr>
     \<lparr>files = [(''/w/lib'', Dir)], stderr = [], unhandled = [], written = [], trace = []\<rparr>
   = (Inr (),
      \<lparr>files = [(''/w/lib'', Dir)], stderr = [],
       unhandled = [FsError ''ENOENT'' ''/w/lib/missing.txt'',
                    FsError ''ENOENT'' ''/w/lib/gitignore.template'',
                    FsError ''ENOENT'' ''/w/lib/npmrc.template''],
       written = [], trace = [ReplaceText, Cleanup, LibLocation]\<rparr>)"
  by (simp add: steps_def is_set_def replaceText_def replace_file_def tokens_of_def pathItemSet_def
      toFrom_def path_join_eval readFile_def cleanup_def filesToRemove_def filesToRename_def
      detached_def remove_def move_def under_path_def startsWith_def pathExists_def)

section \<open>The substitution step as a literal replacement\<close>

lemma get_substitution_plain: "plain_value v \<Longrightarrow> get_substitution m pre post v = v"
  by (induction v rule: plain_value.induct) auto

lemma replace_scan_literal:
  "plain_value v \<Longrightarrow> p \<noteq> [] \<Longrightarrow> replace_scan p (Str v) pre k s = Inr (literal_scan p v k s)"
proof (induction s arbitrary: pre k)
  case Nil
  then show ?case by simp
next
  case (Cons c cs)
  then show ?case
    by (cases k) (simp_all add: replacement_def get_substitution_plain)
qed

lemma regexp_literal_plain_char:
  "\<not> syntax_char c \<Longrightarrow> regexp_literal (c # rest) = map_option ((#) c) (regexp_literal rest)"
  by (cases rest) (auto simp: syntax_char_def)

lemma regexp_literal_escaped_brace:
  "d = CHR ''{'' \<or> d = CHR ''}'' \<Longrightarrow>
   regexp_literal (backslash # d # rest) = map_option ((#) d) (regexp_literal rest)"
  by simp

lemma regexp_literal_escape_braces:
  "list_all (\<lambda>c. c = CHR ''{'' \<or> c = CHR ''}'' \<or> \<not> syntax_char c) token \<Longrightarrow>
   regexp_literal (escape_braces token) = Some token"
proof (induction token)
  case Nil
  then show ?case by (simp add: escape_braces_def)
next
  case (Cons c cs)
  then have ih: "regexp_literal (escape_braces cs) = Some cs" by simp
  have split: "escape_braces (c # cs) =
      (if c = CHR ''{'' \<or> c = CHR ''}'' then [backslash, c] else [c]) @ escape_braces cs"
    by (simp add: escape_braces_def)
  show ?case
  proof (cases "c = CHR ''{'' \<or> c = CHR ''}''")
    case True
    then show ?thesis using ih regexp_literal_escaped_brace [of c "escape_braces cs"]
      by (simp add: split)
  next
    case False
    with Cons.prems have "\<not> syntax_char c" by simp
    then show ?thesis using False ih regexp_literal_plain_char [of c "escape_braces cs"]
      by (simp add: split)
  qed
qed

lemma table_token:
  "get_property (toFrom libName repoName) token = Str v \<Longrightarrow>
   token = ''{{REPO}}'' \<or> token = ''{{LIB_NAME}}'' \<or> token = ''LibNameCoreAPI''"
  by (auto simp: get_property_def toFrom_def split: if_splits)

lemma table_token_literal:
  assumes "token = ''{{REPO}}'' \<or> token = ''{{LIB_NAME}}'' \<or> token = ''LibNameCoreAPI''"
  shows "regexp_literal (escape_braces token) = Some token"
proof (rule regexp_literal_escape_braces)
  from assms show "list_all (\<lambda>c. c = CHR ''{'' \<or> c = CHR ''}'' \<or> \<not> syntax_char c) token"
    by (auto simp: syntax_char_def backslash_def)
qed

text \<open>
  Claim C5, amended: for every token that reaches the substitution step (a token with a
  non-empty value in the table; of those with braces, \<open>{{REPO}}\<close> and \<open>{{LIB_NAME}}\<close>) and
  every file content, the pattern built from the escaped token matches the token text and
  nothing else, and when the resolved value contains none of the replacement patterns
  \<^verbatim>\<open>$$\<close>, \<^verbatim>\<open>$&\<close>, \<^verbatim>\<open>$`\<close>, \<^verbatim>\<open>$'\<close>, the step replaces every occurrence of the
  token text by the value: the global literal-text replacement.
\<close>

theorem replace_token_literal:
  assumes "get_property (toFrom libName repoName) token = Str v"
    and "v \<noteq> []" and "plain_value v"
  shows "regexp_literal (escape_braces token) = Some token
       \<and> replace_token (toFrom libName repoName) (contents, w) token
           = (literal_replace_all token v contents, w)"
proof -
  from assms(1) have t: "token = ''{{REPO}}'' \<or> token = ''{{LIB_NAME}}'' \<or> token = ''LibNameCoreAPI''"
    by (rule table_token)
  then have lit: "regexp_literal (escape_braces token) = Some token" by (rule table_token_literal)
  from t have "token \<noteq> []" by auto
  with assms(3) have "replace_global token (Str v) contents = Inr (literal_replace_all token v contents)"
    by (simp add: replace_global_def literal_replace_all_def replace_scan_literal)
  with assms(1,2) lit show ?thesis
    by (simp add: replace_token_def Let_def)
qed

theorem replace_token_literal_witness:
  "get_property (toFrom ''Foo'' ''org/bar'') ''{{LIB_NAME}}'' = Str ''Foo'' \<and> plain_value ''Foo''
   \<and> replace_token (toFrom ''Foo'' ''org/bar'')
        (''class {{LIB_NAME}} extends {{LIB_NAME}}Base'',
         \<lparr>files = [], stderr = [], unhandled = [], written = [], trace = []\<rparr>) ''{{LIB_NAME}}''
      = (''class Foo extends FooBase'',
         \<lparr>files = [], stderr = [], unhandled = [], written = [], trace = []\<rparr>)"
proof -
  have g: "get_property (toFrom ''Foo'' ''org/bar'') ''{{LIB_NAME}}'' = Str ''Foo''"
    by (simp add: get_property_def toFrom_def)
  have n: "''Foo'' \<noteq> []" by simp
  have p: "plain_value ''Foo''" by simp
  have l: "literal_replace_all ''{{LIB_NAME}}'' ''Foo'' ''class {{LIB_NAME}} extends {{LIB_NAME}}Base''
      = ''class Foo extends FooBase''"
    by (simp add: literal_replace_all_def startsWith_def)
  from replace_token_literal [OF g n p, of "''class {{LIB_NAME}} extends {{LIB_NAME}}Base''"
      "\<lparr>files = [], stderr = [], unhandled = [], written = [], trace = []\<rparr>"] g p l
  show ?thesis by simp
qed

text \<open>
  As claim C5 states it, for every resolved value, the property fails: with the repo name
  \<open>org/price$$\<close> the step writes one dollar where the literal replacement has two.
\<close>

theorem replace_token_dollar_counterexample:
  "replace_token (toFrom ''Foo'' ''org/price$$'')
      (''see {{REPO}}'', \<lparr>files = [], stderr = [], unhandled = [], written = [], trace = []\<rparr>)
      ''{{REPO}}''
     = (''see org/price$'', \<lparr>files = [], stderr = [], unhandled = [], written = [], trace = []\<rparr>)
   \<and> literal_replace_all ''{{REPO}}'' ''org/price$$'' ''see {{REPO}}'' = ''see org/price$$''"
  by (simp add: replace_token_def toFrom_def get_property_def escape_braces_def backslash_def
      syntax_char_def replace_global_def replacement_def startsWith_def literal_replace_all_def Let_def)

section \<open>Which files token substitution writes\<close>

lemma replace_token_frame:
  "files (snd (replace_token table cw t)) = files (snd cw)"
  "written (snd (replace_token table cw t)) = written (snd cw)"
  "set (stderr (snd cw)) \<subseteq> set (stderr (snd (replace_token table cw t)))"
  by (auto simp: replace_token_def Let_def split: option.splits sum.splits)

lemma foldl_replace_token_frame:
  "files (snd (foldl (replace_token table) cw ts)) = files (snd cw)
   \<and> written (snd (foldl (replace_token table) cw ts)) = written (snd cw)
   \<and> set (stderr (snd cw)) \<subseteq> set (stderr (snd (foldl (replace_token table) cw ts)))"
proof (induction ts arbitrary: cw)
  case Nil
  then show ?case by simp
next
  case (Cons t ts)
  from Cons.IH [of "replace_token table cw t"]
    replace_token_frame [where table = table and cw = cw and t = t]
  show ?case by auto
qed

lemma readFile_writeFile_other:
  "writeFile fs p s = Inr fs' \<Longrightarrow> q \<noteq> p \<Longrightarrow> readFile fs' q = readFile fs q"
  by (auto simp: writeFile_def readFile_def map_of_fs_put split: option.splits node.splits)

text \<open>A unit leaves every file but its own as it was.\<close>

lemma replace_file_other:
  assumes ne: "P \<noteq> path_join f q"
  shows "readFile (files (replace_file f m table fs0 w q)) P = readFile (files w) P"
proof (cases "readFile fs0 (path_join f q)")
  case (Inl e)
  then show ?thesis by (simp add: replace_file_def Let_def)
next
  case (Inr body)
  define cw where "cw = foldl (replace_token table) (body, w) (tokens_of m q)"
  have fr: "files (snd cw) = files w"
    using foldl_replace_token_frame [where table = table and cw = "(body, w)" and ts = "tokens_of m q"]
    by (simp add: cw_def)
  show ?thesis
    using Inr fr readFile_writeFile_other [OF _ ne]
    by (auto simp: replace_file_def Let_def cw_def [symmetric] split: sum.splits)
qed

lemma replace_file_mono:
  "set (written w) \<subseteq> set (written (replace_file f m table fs0 w q))
   \<and> set (stderr w) \<subseteq> set (stderr (replace_file f m table fs0 w q))"
proof (cases "readFile fs0 (path_join f q)")
  case (Inl e)
  then show ?thesis by (simp add: replace_file_def Let_def)
next
  case (Inr body)
  define cw where "cw = foldl (replace_token table) (body, w) (tokens_of m q)"
  have fr: "written (snd cw) = written w" "set (stderr w) \<subseteq> set (stderr (snd cw))"
    using foldl_replace_token_frame [where table = table and cw = "(body, w)" and ts = "tokens_of m q"]
    by (simp_all add: cw_def)
  show ?thesis
    using Inr fr
    by (auto simp: replace_file_def Let_def cw_def [symmetric] split: sum.splits)
qed

lemma foldl_replace_file_mono:
  "set (written w) \<subseteq> set (written (foldl (replace_file f m table fs0) w xs))
   \<and> set (stderr w) \<subseteq> set (stderr (foldl (replace_file f m table fs0) w xs))"
proof (induction xs arbitrary: w)
  case Nil
  then show ?case by simp
next
  case (Cons x xs)
  from Cons.IH [of "replace_file f m table fs0 w x"]
    replace_file_mono [where w = w and f = f and m = m and table = table and ?fs0.0 = fs0 and q = x]
  show ?case by auto
qed

text \<open>The only path a unit passes to writeFile is its own, and only with a token.\<close>

lemma replace_file_written:
  "set (written (replace_file f m table fs0 w q))
     \<subseteq> set (written w) \<union> (if tokens_of m q \<noteq> [] then {path_join f q} else {})"
proof (cases "readFile fs0 (path_join f q)")
  case (Inl e)
  then show ?thesis by (simp add: replace_file_def Let_def)
next
  case (Inr body)
  define cw where "cw = foldl (replace_token table) (body, w) (tokens_of m q)"
  have fr: "written (snd cw) = written w"
    using foldl_replace_token_frame [where table = table and cw = "(body, w)" and ts = "tokens_of m q"]
    by (simp add: cw_def)
  show ?thesis
    using Inr fr
    by (auto simp: replace_file_def Let_def cw_def [symmetric] split: sum.splits)
qed

lemma foldl_replace_file_written:
  "set (written (foldl (replace_file f m table fs0) w xs))
     \<subseteq> set (written w) \<union> path_join f ` {q \<in> set xs. tokens_of m q \<noteq> []}"
proof (induction xs arbitrary: w)
  case Nil
  then show ?case by simp
next
  case (Cons x xs)
  from Cons.IH [of "replace_file f m table fs0 w x"]
    replace_file_written [where w = w and f = f and m = m and table = table and ?fs0.0 = fs0 and q = x]
  show ?case by (auto split: if_splits)
qed

lemma tokens_of_listed:
  assumes "tokens_of m q \<noteq> []"
  shows "\<exists>token paths. map_of m token = Some paths \<and> q \<in> set paths"
proof -
  from assms obtain t where "t \<in> set (tokens_of m q)" by (cases "tokens_of m q") auto
  then show ?thesis by (auto simp: tokens_of_def split: option.splits)
qed


text \<open>The unit of a path whose only token has no mapping writes the text it read.\<close>

lemma replace_file_unknown_only:
  assumes "readFile fs0 (path_join f q) = Inr body"
    and "tokens_of m q = [t]" and "get_property table t = Undefined"
    and "readFile (files w) (path_join f q) = Inr body"
  shows "readFile (files (replace_file f m table fs0 w q)) (path_join f q) = Inr body
       \<and> (''No mapping found, skipping replace of '' @ t)
           \<in> set (stderr (replace_file f m table fs0 w q))
       \<and> path_join f q \<in> set (written (replace_file f m table fs0 w q))"
proof -
  from assms(4) obtain fs' where
    "writeFile (files w) (path_join f q) body = Inr fs'"
    by (auto simp: readFile_def writeFile_def split: option.splits node.splits)
  moreover from this have "readFile fs' (path_join f q) = Inr body" by (rule readFile_writeFile)
  ultimately show ?thesis
    using assms(1,2,3) by (simp add: replace_file_def replace_token_def Let_def)
qed

lemma foldl_replace_file_unknown_only:
  assumes "readFile fs0 P = Inr body" and "get_property table t = Undefined"
  shows "readFile (files w) P = Inr body \<Longrightarrow>
         list_all (\<lambda>q. path_join f q \<noteq> P \<or> tokens_of m q = [t]) xs \<Longrightarrow>
         readFile (files (foldl (replace_file f m table fs0) w xs)) P = Inr body
         \<and> (list_ex (\<lambda>q. path_join f q = P) xs
              \<longrightarrow> (''No mapping found, skipping replace of '' @ t)
                    \<in> set (stderr (foldl (replace_file f m table fs0) w xs))
                  \<and> P \<in> set (written (foldl (replace_file f m table fs0) w xs)))"
proof (induction xs arbitrary: w)
  case Nil
  then show ?case by simp
next
  case (Cons x xs)
  define w1 where "w1 = replace_file f m table fs0 w x"
  from Cons.prems(2) have rest: "list_all (\<lambda>q. path_join f q \<noteq> P \<or> tokens_of m q = [t]) xs"
    and x: "path_join f x \<noteq> P \<or> tokens_of m x = [t]" by simp_all
  have own: "readFile (files w1) P = Inr body
       \<and> (''No mapping found, skipping replace of '' @ t) \<in> set (stderr w1)
       \<and> P \<in> set (written w1)" if "path_join f x = P"
  proof -
    from that x have tk: "tokens_of m x = [t]" by simp
    from assms(1) that have r0: "readFile fs0 (path_join f x) = Inr body" by simp
    from Cons.prems(1) that have r1: "readFile (files w) (path_join f x) = Inr body" by simp
    from replace_file_unknown_only [OF r0 tk assms(2) r1] that show ?thesis
      by (simp add: w1_def)
  qed
  have keep: "readFile (files w1) P = Inr body"
  proof (cases "path_join f x = P")
    case True
    with own show ?thesis by simp
  next
    case False
    then have "P \<noteq> path_join f x" by simp
    from replace_file_other [OF this, of m table fs0 w] Cons.prems(1)
    show ?thesis by (simp add: w1_def)
  qed
  have here: "(''No mapping found, skipping replace of '' @ t)
                \<in> set (stderr (foldl (replace_file f m table fs0) w1 xs))
              \<and> P \<in> set (written (foldl (replace_file f m table fs0) w1 xs))"
    if "path_join f x = P"
    using own [OF that]
      foldl_replace_file_mono
        [where w = w1 and f = f and m = m and table = table and ?fs0.0 = fs0 and xs = xs]
    by auto
  from Cons.IH [OF keep rest] here show ?case by (auto simp: w1_def)
qed

lemma set_set_add: "set (set_add acc vs) = set acc \<union> set vs"
  by (induction vs arbitrary: acc) auto

lemma foldl_set_add_member:
  "p \<in> set acc \<or> (\<exists>k \<in> set keys. \<exists>vs. map_of m k = Some vs \<and> p \<in> set vs) \<Longrightarrow>
   p \<in> set (foldl (\<lambda>acc key. case map_of m key of
                                Some values \<Rightarrow> set_add acc values
                              | None \<Rightarrow> acc) acc keys)"
proof (induction keys arbitrary: acc)
  case Nil
  then show ?case by simp
next
  case (Cons k keys)
  show ?case
    unfolding foldl_Cons
  proof (rule Cons.IH)
    from Cons.prems
    show "p \<in> set (case map_of m k of Some values \<Rightarrow> set_add acc values | None \<Rightarrow> acc)
          \<or> (\<exists>k \<in> set keys. \<exists>vs. map_of m k = Some vs \<and> p \<in> set vs)"
      by (auto simp: set_set_add split: option.splits)
  qed
qed

lemma pathItemSet_member:
  assumes "map_of m token = Some paths" and "p \<in> set paths"
  shows "p \<in> set (pathItemSet m)"
proof -
  from assms(1) have "token \<in> set (map fst m)"
    by (metis map_of_eq_None_iff option.distinct(1) set_map)
  with assms have "\<exists>k \<in> set (map fst m). \<exists>vs. map_of m k = Some vs \<and> p \<in> set vs" by blast
  then show ?thesis unfolding pathItemSet_def by (intro foldl_set_add_member) simp
qed

text \<open>
  Claim C3, amended: in the token substitution stage a file is written back only if at
  least one token of the parameter manifest lists its path, whether or not that token has
  an entry in the table: the guard counts the tokens the manifest lists for the path.  In
  particular, for a manifest entry that maps a token without mapping to a file listed
  under no other token, when no read, replacement or write of the stage fails, the file is
  written back with the content it had, and a diagnostic is emitted for the token.
\<close>

theorem replaceText_writes_only_listed_files:
  assumes "manifest_of paramsJson = Some m"
  shows "(\<forall>P \<in> set (written (snd (replaceText w repoFolder paramsJson libName repoName))).
            P \<in> set (written w)
            \<or> (\<exists>token paths p. map_of m token = Some paths \<and> p \<in> set paths
                                \<and> P = path_join repoFolder p))
       \<and> (map_of m token = Some paths \<and> p \<in> set paths
            \<and> get_property (toFrom libName repoName) token = Undefined
            \<and> list_all (\<lambda>q. path_join repoFolder q \<noteq> path_join repoFolder p
                              \<or> tokens_of m q = [token]) (pathItemSet m)
            \<and> readFile (files w) (path_join repoFolder p) = Inr body
            \<and> unhandled (snd (replaceText w repoFolder paramsJson libName repoName)) = unhandled w
          \<longrightarrow> path_join repoFolder p
                 \<in> set (written (snd (replaceText w repoFolder paramsJson libName repoName)))
              \<and> readFile (files (snd (replaceText w repoFolder paramsJson libName repoName)))
                          (path_join repoFolder p) = Inr body
              \<and> (''No mapping found, skipping replace of '' @ token)
                  \<in> set (stderr (snd (replaceText w repoFolder paramsJson libName repoName))))"
proof -
  have rt: "snd (replaceText w repoFolder paramsJson libName repoName)
      = foldl (replace_file repoFolder m (toFrom libName repoName) (files w)) w (pathItemSet m)"
    using assms by (simp add: replaceText_def)
  have one: "P \<in> set (written w)
            \<or> (\<exists>token paths p. map_of m token = Some paths \<and> p \<in> set paths
                                \<and> P = path_join repoFolder p)"
    if "P \<in> set (written (snd (replaceText w repoFolder paramsJson libName repoName)))" for P
  proof -
    from that foldl_replace_file_written
      [where f = repoFolder and m = m and table = "toFrom libName repoName"
         and ?fs0.0 = "files w" and w = w and xs = "pathItemSet m"]
    have "P \<in> set (written w)
          \<or> (\<exists>q. tokens_of m q \<noteq> [] \<and> P = path_join repoFolder q)"
      unfolding rt by auto
    then show ?thesis using tokens_of_listed by blast
  qed
  have two: "path_join repoFolder p
                 \<in> set (written (snd (replaceText w repoFolder paramsJson libName repoName)))
              \<and> readFile (files (snd (replaceText w repoFolder paramsJson libName repoName)))
                          (path_join repoFolder p) = Inr body
              \<and> (''No mapping found, skipping replace of '' @ token)
                  \<in> set (stderr (snd (replaceText w repoFolder paramsJson libName repoName)))"
    if h: "map_of m token = Some paths" "p \<in> set paths"
       "get_property (toFrom libName repoName) token = Undefined"
       "list_all (\<lambda>q. path_join repoFolder q \<noteq> path_join repoFolder p
                              \<or> tokens_of m q = [token]) (pathItemSet m)"
       "readFile (files w) (path_join repoFolder p) = Inr body"
  proof -
    from h(1,2) have "p \<in> set (pathItemSet m)" by (rule pathItemSet_member)
    then have ex: "list_ex (\<lambda>q. path_join repoFolder q = path_join repoFolder p) (pathItemSet m)"
      by (auto simp: list_ex_iff)
    from foldl_replace_file_unknown_only [OF h(5) h(3) h(5) h(4)] ex
    show ?thesis unfolding rt by simp
  qed
  from one two show ?thesis by blast
qed


theorem replaceText_writes_only_listed_files_witness:
  "(let W = \<lparr>files = [(''/w/lib/a.txt'', File ''{{LIB_NAME}} of {{REPO}}''),
                         (''/w/lib/b.txt'', File ''keep UNKNOWN_TOKEN'')],
                stderr = [], unhandled = [], written = [], trace = []\<rparr>;
        J = JObj [(''{{LIB_NAME}}'', JArr [JStr ''a.txt'']), (''{{REPO}}'', JArr [JStr ''a.txt'']),
                  (''UNKNOWN_TOKEN'', JArr [JStr ''b.txt''])];
        M = [(''{{LIB_NAME}}'', [''a.txt'']), (''{{REPO}}'', [''a.txt'']),
             (''UNKNOWN_TOKEN'', [''b.txt''])];
        R = snd (replaceText W ''/w/lib'' J ''Foo'' ''org/bar'')
    in manifest_of J = Some M
       \<and> unhandled R = unhandled W
       \<and> (\<forall>P \<in> set (written R).
             \<exists>token paths p. map_of M token = Some paths \<and> p \<in> set paths
                              \<and> P = path_join ''/w/lib'' p)
       \<and> path_join ''/w/lib'' ''b.txt'' \<in> set (written R)
       \<and> readFile (files R) (path_join ''/w/lib'' ''b.txt'') = Inr ''keep UNKNOWN_TOKEN''
       \<and> ''No mapping found, skipping replace of UNKNOWN_TOKEN'' \<in> set (stderr R))"
proof -
  let ?W = "\<lparr>files = [(''/w/lib/a.txt'', File ''{{LIB_NAME}} of {{REPO}}''),
                       (''/w/lib/b.txt'', File ''keep UNKNOWN_TOKEN'')],
              stderr = [], unhandled = [], written = [], trace = []\<rparr>"
  let ?J = "JObj [(''{{LIB_NAME}}'', JArr [JStr ''a.txt'']), (''{{REPO}}'', JArr [JStr ''a.txt'']),
                  (''UNKNOWN_TOKEN'', JArr [JStr ''b.txt''])]"
  let ?M = "[(''{{LIB_NAME}}'', [''a.txt'']), (''{{REPO}}'', [''a.txt'']),
             (''UNKNOWN_TOKEN'', [''b.txt''])]"
  let ?R = "snd (replaceText ?W ''/w/lib'' ?J ''Foo'' ''org/bar'')"
  have a: "manifest_of ?J = Some ?M" by simp
  have ev: "?R = \<lparr>files = [(''/w/lib/b.txt'', File ''keep UNKNOWN_TOKEN''),
                          (''/w/lib/a.txt'', File ''Foo of org/bar'')],
                 stderr = [''No mapping found, skipping replace of UNKNOWN_TOKEN''],
                 unhandled = [], written = [''/w/lib/a.txt'', ''/w/lib/b.txt''], trace = []\<rparr>"
    by (simp add: replaceText_def replace_file_def replace_token_def tokens_of_def pathItemSet_def
        toFrom_def get_property_def object_prototype_names_def escape_braces_def backslash_def
        syntax_char_def replace_global_def replacement_def path_join_eval
        readFile_def writeFile_def fs_put_def)
  have b1: "map_of ?M ''UNKNOWN_TOKEN'' = Some [''b.txt'']" by simp
  have b2: "''b.txt'' \<in> set [''b.txt'']" by simp
  have c: "get_property (toFrom ''Foo'' ''org/bar'') ''UNKNOWN_TOKEN'' = Undefined"
    by (simp add: get_property_def toFrom_def object_prototype_names_def)
  have d: "list_all (\<lambda>q. path_join ''/w/lib'' q \<noteq> path_join ''/w/lib'' ''b.txt''
                         \<or> tokens_of ?M q = [''UNKNOWN_TOKEN'']) (pathItemSet ?M)"
    by (simp add: pathItemSet_def tokens_of_def path_join_eval)
  have e: "readFile (files ?W) (path_join ''/w/lib'' ''b.txt'') = Inr ''keep UNKNOWN_TOKEN''"
    by (simp add: readFile_def path_join_eval)
  have f: "unhandled ?R = unhandled ?W" by (simp add: ev)
  have g: "set (written ?W) = {}" by simp
  note T = replaceText_writes_only_listed_files
         [OF a, of ?W "''/w/lib''" "''Foo''" "''org/bar''" "''UNKNOWN_TOKEN''" "[''b.txt'']"
            "''b.txt''" "''keep UNKNOWN_TOKEN''"]
  from T have "\<forall>P \<in> set (written ?R). P \<in> set (written ?W)
             \<or> (\<exists>token paths p. map_of ?M token = Some paths \<and> p \<in> set paths
                              \<and> P = path_join ''/w/lib'' p)"
    by (rule conjunct1)
  then have p1: "\<forall>P \<in> set (written ?R).
             \<exists>token paths p. map_of ?M token = Some paths \<and> p \<in> set paths
                              \<and> P = path_join ''/w/lib'' p"
    unfolding g by blast
  from T b1 b2 c d e f
  have p2: "path_join ''/w/lib'' ''b.txt'' \<in> set (written ?R)
       \<and> readFile (files ?R) (path_join ''/w/lib'' ''b.txt'') = Inr ''keep UNKNOWN_TOKEN''
       \<and> (''No mapping found, skipping replace of '' @ ''UNKNOWN_TOKEN'') \<in> set (stderr ?R)"
    by blast
  then have p3: "path_join ''/w/lib'' ''b.txt'' \<in> set (written ?R)
       \<and> readFile (files ?R) (path_join ''/w/lib'' ''b.txt'') = Inr ''keep UNKNOWN_TOKEN''
       \<and> ''No mapping found, skipping replace of UNKNOWN_TOKEN'' \<in> set (stderr ?R)"
    by (simp only: append.simps)
  from a f p1 p3 show ?thesis unfolding Let_def by blast
qed

text \<open>
  As claim C3 states it (a file is written back only if a token of the table applies to
  it; a file listed under an unknown token only is not rewritten) the property fails on
  the manifest of the specification's own example: \<open>b.txt\<close>, listed under
  \<open>UNKNOWN_TOKEN\<close> only, is passed to \<^verbatim>\<open>writeFile\<close>.
\<close>

theorem replaceText_unknown_token_counterexample:
  "replaceText \<lparr>files = [(''/w/lib/a.txt'', File ''{{LIB_NAME}} of {{REPO}}''),
                          (''/w/lib/b.txt'', File ''keep UNKNOWN_TOKEN'')],
                 stderr = [], unhandled = [], written = [], trace = []\<rparr>
       ''/w/lib''
       (JObj [(''{{LIB_NAME}}'', JArr [JStr ''a.txt'']), (''{{REPO}}'', JArr [JStr ''a.txt'']),
              (''UNKNOWN_TOKEN'', JArr [JStr ''b.txt''])])
       ''Foo'' ''org/bar''
   = (Inr (),
      \<lparr>files = [(''/w/lib/b.txt'', File ''keep UNKNOWN_TOKEN''),
                 (''/w/lib/a.txt'', File ''Foo of org/bar'')],
        stderr = [''No mapping found, skipping replace of UNKNOWN_TOKEN''],
        unhandled = [], written = [''/w/lib/a.txt'', ''/w/lib/b.txt''], trace = []\<rparr>)"
  by (simp add: replaceText_def replace_file_def replace_token_def tokens_of_def pathItemSet_def
      toFrom_def get_property_def object_prototype_names_def escape_braces_def backslash_def
      syntax_char_def replace_global_def replacement_def path_join_eval
      readFile_def writeFile_def fs_put_def)

section \<open>Tokens without an entry in the table\<close>

lemma replace_token_unknown:
  "get_property table token = Undefined \<Longrightarrow>
   replace_token table (contents, w) token
     = (contents, w\<lparr>stderr := stderr w @ [''No mapping found, skipping replace of '' @ token]\<rparr>)"
  by (simp add: replace_token_def)

lemma get_property_unknown:
  "token \<notin> {''{{REPO}}'', ''{{LIB_NAME}}'', ''LibNameCoreAPI''} \<Longrightarrow>
   token \<notin> set object_prototype_names \<Longrightarrow>
   get_property (toFrom libName repoName) token = Undefined"
  by (simp add: get_property_def toFrom_def)

text \<open>
  Claim C6 says that for every token of the manifest without an entry in the table the
  stage emits a diagnostic and skips the token.  The token \<open>constructor\<close> has no entry
  among the three of the table, yet \<^verbatim>\<open>toFrom['constructor']\<close> is the function
  inherited from \<^verbatim>\<open>Object.prototype\<close>, which is truthy: no diagnostic is emitted and
  the token is not skipped, the replacement is made with that function.  For a token that
  is neither in the table nor a name inherited from \<^verbatim>\<open>Object.prototype\<close> the step does
  what the claim says (\<open>get_property_unknown\<close>, \<open>replace_token_unknown\<close>).
\<close>

theorem replaceText_inherited_name:
  "get_property (toFrom ''Foo'' ''org/bar'') ''constructor'' = Inherited ''constructor''
   \<and> map_of (toFrom ''Foo'' ''org/bar'') ''constructor'' = None
   \<and> replaceText \<lparr>files = [(''/w/lib/a.txt'', File ''the constructor of {{LIB_NAME}}'')],
                 stderr = [], unhandled = [], written = [], trace = []\<rparr>
       ''/w/lib'' (JObj [(''constructor'', JArr [JStr ''a.txt''])]) ''Foo'' ''org/bar''
   = (Inr (),
      \<lparr>files = [(''/w/lib/a.txt'', File ''the constructor of {{LIB_NAME}}'')],
        stderr = [], unhandled = [], written = [''/w/lib/a.txt''], trace = []\<rparr>)"
  by (simp add: replaceText_def replace_file_def replace_token_def tokens_of_def pathItemSet_def
      toFrom_def get_property_def object_prototype_names_def escape_braces_def backslash_def
      syntax_char_def replace_global_def replacement_def startsWith_def path_join_eval
      readFile_def writeFile_def fs_put_def Let_def)

section \<open>Parameter loading: when it raises\<close>

text \<open>
  With a destination folder that is not an absolute path the file may exist and
  \<^verbatim>\<open>require\<close> still raise, since it does not look the path up as a file.
\<close>

lemma readParametersFile_relative:
  "\<not> is_absolute (path_join repoFolder ''template.parameters.json'') \<Longrightarrow>
   require_resolve rt (path_join repoFolder ''template.parameters.json'') = None \<Longrightarrow>
   pathExists fs (path_join repoFolder ''template.parameters.json'') \<Longrightarrow>
   readParametersFile rt fs repoFolder
     = Inl (Error (''Cannot find module '' @ path_join repoFolder ''template.parameters.json''))"
  by (simp add: readParametersFile_def require_json_def Let_def)

text \<open>
  Claim C7, amended: parameter loading raises the not-found error, whose message names
  the expected file name and the searched folder, if and only if
  \<open>template.parameters.json\<close> does not exist at the root of the destination folder; when
  the destination folder is an absolute path, the file exists and its text is well-formed
  JSON, the stage returns the parsed document; when the destination folder is an absolute
  path, the file exists and its text is not JSON, the stage raises a parse error.
\<close>

theorem readParametersFile_cases:
  "(readParametersFile rt fs repoFolder
      = Inl (Error (''template.parameters.json does not exist in '' @ repoFolder))
    \<longleftrightarrow> \<not> pathExists fs (path_join repoFolder ''template.parameters.json''))
   \<and> (is_absolute repoFolder
        \<and> readFile fs (path_join repoFolder ''template.parameters.json'') = Inr body
        \<and> json_parse rt body = Some j
      \<longrightarrow> readParametersFile rt fs repoFolder = Inr j)
   \<and> (is_absolute repoFolder
        \<and> readFile fs (path_join repoFolder ''template.parameters.json'') = Inr body
        \<and> json_parse rt body = None
      \<longrightarrow> readParametersFile rt fs repoFolder
            = Inl (SyntaxError (path_join repoFolder ''template.parameters.json'')))"
proof (intro conjI impI)
  show "readParametersFile rt fs repoFolder
      = Inl (Error (''template.parameters.json does not exist in '' @ repoFolder))
    \<longleftrightarrow> \<not> pathExists fs (path_join repoFolder ''template.parameters.json'')"
    by (auto simp: readParametersFile_def require_json_def load_json_def Let_def
        split: option.splits node.splits)
next
  assume h: "is_absolute repoFolder
        \<and> readFile fs (path_join repoFolder ''template.parameters.json'') = Inr body
        \<and> json_parse rt body = Some j"
  then have "is_absolute (path_join repoFolder ''template.parameters.json'')"
    by (simp add: is_absolute_path_join)
  with h show "readParametersFile rt fs repoFolder = Inr j"
    by (auto simp: readParametersFile_def require_json_def load_json_def Let_def pathExists_def
        readFile_def split: option.splits node.splits)
next
  assume h: "is_absolute repoFolder
        \<and> readFile fs (path_join repoFolder ''template.parameters.json'') = Inr body
        \<and> json_parse rt body = None"
  then have "is_absolute (path_join repoFolder ''template.parameters.json'')"
    by (simp add: is_absolute_path_join)
  with h show "readParametersFile rt fs repoFolder
            = Inl (SyntaxError (path_join repoFolder ''template.parameters.json''))"
    by (auto simp: readParametersFile_def require_json_def load_json_def Let_def pathExists_def
        readFile_def split: option.splits node.splits)
qed

theorem readParametersFile_cases_witness:
  "(let rt = \<lparr>json_parse = (\<lambda>s. if s = ''{}'' then Some (JObj []) else None),
               json_stringify = (\<lambda>j. ''{}''), git_clone = (\<lambda>u p fs. Inr fs),
               toUpperCase = (\<lambda>s. s), cwd = ''/w'', template_dir = ''/t'',
               require_resolve = (\<lambda>p. None)\<rparr>
    in is_absolute ''/w/lib''
       \<and> readParametersFile rt [(''/w/lib/template.parameters.json'', File ''{}'')] ''/w/lib''
           = Inr (JObj [])
       \<and> readParametersFile rt [(''/w/lib/template.parameters.json'', File ''{'')] ''/w/lib''
           = Inl (SyntaxError ''/w/lib/template.parameters.json'')
       \<and> readParametersFile rt [] ''/w/lib''
           = Inl (Error ''template.parameters.json does not exist in /w/lib''))"
proof -
  let ?rt = "\<lparr>json_parse = (\<lambda>s. if s = ''{}'' then Some (JObj []) else None),
               json_stringify = (\<lambda>j. ''{}''), git_clone = (\<lambda>u p fs. Inr fs),
               toUpperCase = (\<lambda>s. s), cwd = ''/w'', template_dir = ''/t'',
               require_resolve = (\<lambda>p. None)\<rparr>"
  have pj: "path_join ''/w/lib'' ''template.parameters.json'' = ''/w/lib/template.parameters.json''"
    by (simp add: path_join_eval)
  have ab: "is_absolute ''/w/lib''" by (simp add: is_absolute_def startsWith_def)
  have a: "readFile [(''/w/lib/template.parameters.json'', File ''{}'')]
             (path_join ''/w/lib'' ''template.parameters.json'') = Inr ''{}''
           \<and> json_parse ?rt ''{}'' = Some (JObj [])"
    by (simp add: readFile_def pj)
  have b: "readFile [(''/w/lib/template.parameters.json'', File ''{'')]
             (path_join ''/w/lib'' ''template.parameters.json'') = Inr ''{''
           \<and> json_parse ?rt ''{'' = None"
    by (simp add: readFile_def pj)
  have c: "\<not> pathExists [] (path_join ''/w/lib'' ''template.parameters.json'')"
    by (simp add: pathExists_def)
  from ab a readParametersFile_cases
         [of ?rt "[(''/w/lib/template.parameters.json'', File ''{}'')]" "''/w/lib''" "''{}''" "JObj []"]
  have 1: "readParametersFile ?rt [(''/w/lib/template.parameters.json'', File ''{}'')] ''/w/lib''
             = Inr (JObj [])" by blast
  from ab b readParametersFile_cases
         [of ?rt "[(''/w/lib/template.parameters.json'', File ''{'')]" "''/w/lib''" "''{''" JNull]
  have 2: "readParametersFile ?rt [(''/w/lib/template.parameters.json'', File ''{'')] ''/w/lib''
             = Inl (SyntaxError (path_join ''/w/lib'' ''template.parameters.json''))" by blast
  from c readParametersFile_cases [of ?rt "[]" "''/w/lib''" "''''" JNull]
  have 3: "readParametersFile ?rt [] ''/w/lib''
             = Inl (Error (''template.parameters.json does not exist in '' @ ''/w/lib''))" by blast
  from ab 1 2 3 show ?thesis by (simp add: pj)
qed

text \<open>
  As claim C7 states it (an error is raised if and only if the file does not exist) the
  property fails: a file that exists and holds the text \<open>{\<close>, which \<^verbatim>\<open>JSON.parse\<close> and
  every parser of JSON rejects, makes the stage raise as well.
\<close>

theorem readParametersFile_iff_counterexample:
  "\<not> (\<forall>rt fs repoFolder.
        (\<exists>e. readParametersFile rt fs repoFolder = Inl e)
        \<longleftrightarrow> \<not> pathExists fs (path_join repoFolder ''template.parameters.json''))"
proof
  assume all: "\<forall>rt fs repoFolder.
        (\<exists>e. readParametersFile rt fs repoFolder = Inl e)
        \<longleftrightarrow> \<not> pathExists fs (path_join repoFolder ''template.parameters.json'')"
  let ?rt = "\<lparr>json_parse = (\<lambda>s. if s = ''{}'' then Some (JObj []) else None),
               json_stringify = (\<lambda>j. ''{}''), git_clone = (\<lambda>u p fs. Inr fs),
               toUpperCase = (\<lambda>s. s), cwd = ''/w'', template_dir = ''/t'',
               require_resolve = (\<lambda>p. None)\<rparr>"
  let ?fs = "[(''/w/lib/template.parameters.json'', File ''{'')]"
  have pj: "path_join ''/w/lib'' ''template.parameters.json'' = ''/w/lib/template.parameters.json''"
    by (simp add: path_join_eval)
  have "readParametersFile ?rt ?fs ''/w/lib'' = Inl (SyntaxError ''/w/lib/template.parameters.json'')"
    by (simp add: readParametersFile_def require_json_def load_json_def pathExists_def pj
        is_absolute_def startsWith_def)
  moreover have "pathExists ?fs (path_join ''/w/lib'' ''template.parameters.json'')"
    by (simp add: pathExists_def pj)
  ultimately show False using all by blast
qed

section \<open>Copying the template over existing files\<close>










section \<open>The destination folder and the overwrite flag\<close>





end
